theory Spec2Isabelle
  imports Main "HOL-Library.Multiset" "HOL-Library.Char_ord" "HOL-Library.List_Lexorder"
    "HOL-Library.Product_Lexorder"
begin

section \<open>JavaScript values\<close>

text \<open>
  The values that reach the data-access layer: the primitives of a parsed request, plain
  objects (an association list in the order \<open>Object.keys\<close> enumerates the own keys) and
  the members a plain object inherits from \<open>Object.prototype\<close>. A request carries data, so
  a function is only ever met as such an inherited member. Numbers are NaN and the
  integers: \<open>JNum n\<close> is the double \<open>n\<close>, which is exact, and printed in plain digits, for
  the safe integers (up to \<open>2^53 - 1\<close> in magnitude); fractional and infinite doubles are
  outside the model.
\<close>

datatype jsval =
    JUndefined
  | JNull
  | JBool bool
  | JNum int
  | JNaN
  | JStr string
  | JNative string
  | JObj "(string \<times> jsval) list"

type_synonym obj = "(string \<times> jsval) list"

datatype error =
    BadRequestError string
  | NotFoundError string
  | TypeError string
  | StoreFault string

definition dq :: string where
  "dq = [CHR 0x22]"

definition sq :: string where
  "sq = [CHR 0x27]"

definition digit_char :: "nat \<Rightarrow> char" where
  "digit_char d = char_of (48 + d)"

function show_nat :: "nat \<Rightarrow> string" where
  "show_nat n = (if n < 10 then [digit_char n] else show_nat (n div 10) @ [digit_char (n mod 10)])"
  by pat_completeness auto
termination
  by (relation "measure (\<lambda>n. n)") auto

declare show_nat.simps [simp del]

definition show_int :: "int \<Rightarrow> string" where
  "show_int i = (if i < 0 then CHR ''-'' # show_nat (nat (- i)) else show_nat (nat i))"

text \<open>\<open>!!v\<close>: the falsy values are undefined, null, false, 0, NaN and the empty string.\<close>

fun truthy :: "jsval \<Rightarrow> bool" where
  "truthy JUndefined = False"
| "truthy JNull = False"
| "truthy (JBool b) = b"
| "truthy (JNum n) = (n \<noteq> 0)"
| "truthy JNaN = False"
| "truthy (JStr s) = (s \<noteq> [])"
| "truthy (JNative t) = True"
| "truthy (JObj ps) = True"

text \<open>The string a template literal \<open>`${v}`\<close> puts in place of \<open>v\<close>.\<close>

fun String_js :: "jsval \<Rightarrow> string" where
  "String_js JUndefined = ''undefined''"
| "String_js JNull = ''null''"
| "String_js (JBool b) = (if b then ''true'' else ''false'')"
| "String_js (JNum n) = show_int n"
| "String_js JNaN = ''NaN''"
| "String_js (JStr s) = s"
| "String_js (JNative t) = t"
| "String_js (JObj ps) = ''[object Object]''"

text \<open>
  \<open>o[k]\<close> on a plain object: the own property when there is one, else what
  \<open>Object.prototype\<close> provides under that name (its methods, printed by the runtime as
  native functions, and \<open>__proto__\<close>, the prototype object itself), else undefined.
\<close>

definition prototype_methods :: "string list" where
  "prototype_methods =
     [''constructor'', ''__defineGetter__'', ''__defineSetter__'', ''hasOwnProperty'',
      ''__lookupGetter__'', ''__lookupSetter__'', ''isPrototypeOf'', ''propertyIsEnumerable'',
      ''toString'', ''valueOf'', ''toLocaleString'']"

definition inherited_names :: "string list" where
  "inherited_names = ''__proto__'' # prototype_methods"

definition Object_prototype :: "string \<Rightarrow> jsval" where
  "Object_prototype k =
     (if k = ''__proto__'' then JObj []
      else if k \<in> set prototype_methods
      then JNative (''function '' @ (if k = ''constructor'' then ''Object'' else k)
                      @ ''() { [native code] }'')
      else JUndefined)"

definition get_prop :: "obj \<Rightarrow> string \<Rightarrow> jsval" where
  "get_prop ob k = (case map_of ob k of Some v \<Rightarrow> v | None \<Rightarrow> Object_prototype k)"

definition Object_keys :: "obj \<Rightarrow> string list" where
  "Object_keys ob = map fst ob"

definition Object_values :: "obj \<Rightarrow> jsval list" where
  "Object_values ob = map snd ob"

text \<open>\<open>xs.join(sep)\<close> on a list of strings.\<close>

fun join :: "string \<Rightarrow> string list \<Rightarrow> string" where
  "join sep [] = []"
| "join sep [x] = x"
| "join sep (x # y # ys) = x @ sep @ join sep (y # ys)"

section \<open>helpers/sql.js\<close>

record partial_update =
  setCols :: string
  values_of :: "jsval list"

text \<open>The callback of \<open>keys.map\<close>: \<open>`"${jsToSql[colName] || colName}"=$${idx + 1}`\<close>.\<close>

definition column_name :: "obj \<Rightarrow> string \<Rightarrow> string" where
  "column_name jsToSql colName =
     (if truthy (get_prop jsToSql colName) then String_js (get_prop jsToSql colName)
      else colName)"

definition col_fragment :: "obj \<Rightarrow> nat \<times> string \<Rightarrow> string" where
  "col_fragment jsToSql p =
     dq @ column_name jsToSql (snd p) @ dq @ ''=$'' @ show_nat (fst p + 1)"

definition sqlForPartialUpdate :: "obj \<Rightarrow> obj \<Rightarrow> error + partial_update" where
  "sqlForPartialUpdate dataToUpdate jsToSql =
     (let keys = Object_keys dataToUpdate in
      if length keys = 0 then Inl (BadRequestError ''No data'')
      else
        let cols = map (col_fragment jsToSql) (enumerate 0 keys) in
        Inr \<lparr> setCols = join '', '' cols, values_of = Object_values dataToUpdate \<rparr>)"

section \<open>The data store\<close>

text \<open>
  Modelled from the spec: the relational store (\<open>db.js\<close> and the schema are not among
  the sources). The tables are \<open>jobs(id, title, salary, equity, company_handle)\<close> and
  \<open>companies(handle, name, description, num_employees, logo_url)\<close>; \<open>id\<close> and
  \<open>handle\<close> are the primary keys and \<open>company_handle\<close> references \<open>companies\<close>.
  A column holds the value as a later read hands it out. Every statement the accessor
  sends is recorded, with the text it interpolated and its positional parameters.
\<close>

record job_row =
  j_id :: int
  j_title :: jsval
  j_salary :: jsval
  j_equity :: jsval
  j_company_handle :: jsval

record company_row =
  c_handle :: jsval
  c_name :: jsval
  c_description :: jsval
  c_num_employees :: jsval
  c_logo_url :: jsval

datatype statement =
    SelectJobs
  | SelectJobsWhere string
  | SelectJobById
  | SelectCompanyByHandle
  | UpdateJobs string string
  | DeleteJob

record store =
  jobs :: "job_row list"
  companies :: "company_row list"
  issued :: "(statement \<times> jsval list) list"

text \<open>
  What the runtime and the store decide and the sources do not:
  \<^item> \<open>StringToNumber\<close>: the number a string converts to (None is NaN);
  \<^item> \<open>lower_case\<close>: \<open>String.prototype.toLowerCase\<close>;
  \<^item> \<open>sql_like\<close>: whether a title matches the text put between the quotes of
    \<open>LIKE '...'\<close>;
  \<^item> \<open>store_value\<close>: the value a column holds after a parameter is bound to it, the store
    converting the parameter to the type of the column (None when it rejects it);
  \<^item> \<open>run_statement\<close>: what the store makes of a statement whose interpolated text leaves
    the quotes it was put between (a title with a single quote, a key with a double
    quote): the message of its error or the rows, and the tables afterwards.
\<close>

record platform =
  StringToNumber :: "string \<Rightarrow> int option"
  lower_case :: "string \<Rightarrow> string"
  sql_like :: "string \<Rightarrow> jsval \<Rightarrow> bool"
  store_value :: "string \<Rightarrow> jsval \<Rightarrow> jsval option"
  run_statement :: "statement \<Rightarrow> jsval list \<Rightarrow> job_row list \<times> company_row list
     \<Rightarrow> (string + obj list) \<times> job_row list \<times> company_row list"

definition record_stmt :: "statement \<Rightarrow> jsval list \<Rightarrow> store \<Rightarrow> store" where
  "record_stmt st params db = db\<lparr> issued := issued db @ [(st, params)] \<rparr>"

definition run_opaque :: "platform \<Rightarrow> statement \<Rightarrow> jsval list \<Rightarrow> store \<Rightarrow> (error + obj list) \<times> store" where
  "run_opaque pf st params db =
     (case run_statement pf st params (jobs db, companies db) of
        (res, js, cs) \<Rightarrow>
          ((case res of Inl m \<Rightarrow> Inl (StoreFault m) | Inr rows \<Rightarrow> Inr rows),
           (record_stmt st params db)\<lparr> jobs := js, companies := cs \<rparr>))"

text \<open>The row object of \<open>SELECT id, title, salary, equity, company_handle AS "companyHandle"\<close>.\<close>

definition job_object :: "job_row \<Rightarrow> obj" where
  "job_object r =
     [(''id'', JNum (j_id r)), (''title'', j_title r), (''salary'', j_salary r),
      (''equity'', j_equity r), (''companyHandle'', j_company_handle r)]"

definition company_object :: "company_row \<Rightarrow> obj" where
  "company_object c =
     [(''handle'', c_handle c), (''name'', c_name c), (''description'', c_description c),
      (''numEmployees'', c_num_employees c), (''logoUrl'', c_logo_url c)]"

text \<open>\<open>ORDER BY title\<close>: ascending, nulls last, texts compared byte by byte.\<close>

definition title_key :: "job_row \<Rightarrow> bool \<times> string" where
  "title_key r = (j_title r = JNull, String_js (j_title r))"

definition order_by_title :: "job_row list \<Rightarrow> job_row list" where
  "order_by_title rs = sort_key title_key rs"

text \<open>
  The conjuncts the filter builder emits, their SQL text and their meaning on a row. The
  text of a title is put between single quotes as it is, so a title with a single quote
  ends the literal early.
\<close>

datatype conjunct = SalaryGE int | EquityPos | TitleLike string

fun sql_of_conjunct :: "conjunct \<Rightarrow> string" where
  "sql_of_conjunct (SalaryGE n) = ''salary >= '' @ show_int n"
| "sql_of_conjunct EquityPos = ''equity > 0''"
| "sql_of_conjunct (TitleLike s) = ''LOWER(title) LIKE '' @ sq @ ''%'' @ s @ ''%'' @ sq"

fun breaks_literal :: "conjunct \<Rightarrow> bool" where
  "breaks_literal (TitleLike s) = (CHR 0x27 \<in> set s)"
| "breaks_literal c = False"

definition is_digit :: "char \<Rightarrow> bool" where
  "is_digit c = (CHR ''0'' \<le> c \<and> c \<le> CHR ''9'')"

text \<open>A numeric column above zero: the store hands decimals out as text such as \<open>0.1\<close>.\<close>

fun numeric_pos :: "jsval \<Rightarrow> bool" where
  "numeric_pos (JNum n) = (0 < n)"
| "numeric_pos (JStr s) =
     (list_all (\<lambda>c. is_digit c \<or> c = CHR ''.'') s \<and> list_ex (\<lambda>c. is_digit c \<and> c \<noteq> CHR ''0'') s)"
| "numeric_pos v = False"

fun holds :: "platform \<Rightarrow> conjunct \<Rightarrow> job_row \<Rightarrow> bool" where
  "holds pf (SalaryGE n) r = (case j_salary r of JNum s \<Rightarrow> n \<le> s | _ \<Rightarrow> False)"
| "holds pf EquityPos r = numeric_pos (j_equity r)"
| "holds pf (TitleLike s) r = sql_like pf s (j_title r)"

text \<open>The parameter bound to the placeholder \<open>$i\<close>.\<close>

definition param :: "jsval list \<Rightarrow> nat \<Rightarrow> jsval option" where
  "param params i = (if 0 < i \<and> i \<le> length params then Some (params ! (i - 1)) else None)"

definition query_select_jobs :: "store \<Rightarrow> obj list \<times> store" where
  "query_select_jobs db =
     (map job_object (order_by_title (jobs db)), record_stmt SelectJobs [] db)"

definition query_select_jobs_where ::
  "platform \<Rightarrow> string \<Rightarrow> conjunct list \<Rightarrow> store \<Rightarrow> (error + obj list) \<times> store" where
  "query_select_jobs_where pf whereClause cs db =
     (if list_ex breaks_literal cs then run_opaque pf (SelectJobsWhere whereClause) [] db
      else
        (Inr (map job_object
                (order_by_title (filter (\<lambda>r. list_all (\<lambda>c. holds pf c r) cs) (jobs db)))),
         record_stmt (SelectJobsWhere whereClause) [] db))"

definition query_select_job_by_id :: "jsval list \<Rightarrow> store \<Rightarrow> obj list \<times> store" where
  "query_select_job_by_id params db =
     (map job_object (filter (\<lambda>r. param params 1 = Some (JNum (j_id r))) (jobs db)),
      record_stmt SelectJobById params db)"

definition query_select_company :: "jsval list \<Rightarrow> store \<Rightarrow> obj list \<times> store" where
  "query_select_company params db =
     (map company_object (filter (\<lambda>c. param params 1 = Some (c_handle c)) (companies db)),
      record_stmt SelectCompanyByHandle params db)"

definition query_delete_job :: "jsval list \<Rightarrow> store \<Rightarrow> obj list \<times> store" where
  "query_delete_job params db =
     (map (\<lambda>r. [(''id'', JNum (j_id r))])
        (filter (\<lambda>r. param params 1 = Some (JNum (j_id r))) (jobs db)),
      record_stmt DeleteJob params
        (db\<lparr> jobs := filter (\<lambda>r. param params 1 \<noteq> Some (JNum (j_id r))) (jobs db) \<rparr>))"

text \<open>
  \<open>UPDATE jobs SET "c1"=$1, ... WHERE id = $n RETURNING ...\<close>: the assignments are the
  quoted column names with the index of their placeholder. A column the table does not
  have, a column assigned twice, a placeholder without a parameter, a value the column
  rejects, a duplicate id and a company handle with no company are faults of the store,
  and a fault leaves the tables as they were. A column name with a double quote ends the
  quoted identifier early, and the statement is another one.
\<close>

definition job_columns :: "string list" where
  "job_columns = [''id'', ''title'', ''salary'', ''equity'', ''company_handle'']"

definition set_column :: "platform \<Rightarrow> string \<Rightarrow> jsval \<Rightarrow> job_row \<Rightarrow> job_row option" where
  "set_column pf col v r =
     (if col \<notin> set job_columns then None
      else
        case store_value pf col v of
          None \<Rightarrow> None
        | Some w \<Rightarrow>
            if col = ''title'' then Some (r\<lparr> j_title := w \<rparr>)
            else if col = ''salary'' then Some (r\<lparr> j_salary := w \<rparr>)
            else if col = ''equity'' then Some (r\<lparr> j_equity := w \<rparr>)
            else if col = ''company_handle'' then Some (r\<lparr> j_company_handle := w \<rparr>)
            else (case w of JNum n \<Rightarrow> Some (r\<lparr> j_id := n \<rparr>) | _ \<Rightarrow> None))"

fun assign_all ::
  "platform \<Rightarrow> (string \<times> nat) list \<Rightarrow> jsval list \<Rightarrow> job_row \<Rightarrow> job_row option" where
  "assign_all pf [] params r = Some r"
| "assign_all pf ((col, i) # as) params r =
     (case param params i of
        None \<Rightarrow> None
      | Some v \<Rightarrow>
          (case set_column pf col v r of
             None \<Rightarrow> None
           | Some r' \<Rightarrow> assign_all pf as params r'))"

fun update_rows ::
  "platform \<Rightarrow> (string \<times> nat) list \<Rightarrow> jsval list \<Rightarrow> jsval \<Rightarrow> job_row list
     \<Rightarrow> (job_row list \<times> job_row list) option"
where
  "update_rows pf as params key [] = Some ([], [])"
| "update_rows pf as params key (r # rs) =
     (case update_rows pf as params key rs of
        None \<Rightarrow> None
      | Some (all, hit) \<Rightarrow>
          if JNum (j_id r) = key
          then (case assign_all pf as params r of
                  None \<Rightarrow> None
                | Some r' \<Rightarrow> Some (r' # all, r' # hit))
          else Some (r # all, hit))"

definition constraints_ok :: "job_row list \<Rightarrow> company_row list \<Rightarrow> bool" where
  "constraints_ok js cs =
     (distinct (map j_id js) \<and> list_all (\<lambda>r. j_company_handle r \<in> set (map c_handle cs)) js)"

definition query_update_jobs ::
  "platform \<Rightarrow> string \<Rightarrow> string \<Rightarrow> (string \<times> nat) list \<Rightarrow> nat \<Rightarrow> jsval list \<Rightarrow> store
     \<Rightarrow> (error + obj list) \<times> store" where
  "query_update_jobs pf setText idText as idIdx params db =
     (let db' = record_stmt (UpdateJobs setText idText) params db in
      if list_ex (\<lambda>a. CHR 0x22 \<in> set (fst a)) as
      then run_opaque pf (UpdateJobs setText idText) params db
      else if \<not> list_all (\<lambda>a. fst a \<in> set job_columns) as \<or> \<not> distinct (map fst as)
      then (Inl (StoreFault ''column''), db')
      else
        case param params idIdx of
          None \<Rightarrow> (Inl (StoreFault ''parameter''), db')
        | Some key \<Rightarrow>
            (case update_rows pf as params key (jobs db) of
               None \<Rightarrow> (Inl (StoreFault ''value''), db')
             | Some (all, hit) \<Rightarrow>
                 if constraints_ok all (companies db)
                 then (Inr (map job_object hit), db'\<lparr> jobs := all \<rparr>)
                 else (Inl (StoreFault ''constraint''), db')))"

section \<open>models/job.js\<close>

text \<open>
  \<open>Number(v)\<close>, with None for NaN. On an object the conversion asks \<open>valueOf\<close>, which as
  the inherited member returns the object itself and as own data is not callable, and
  then \<open>toString\<close>: the inherited member returns \<open>[object Object]\<close>, which is NaN, and with
  an own \<open>toString\<close> that is not a function nothing converts and a TypeError is thrown.
\<close>

fun is_native :: "jsval \<Rightarrow> bool" where
  "is_native (JNative t) = True"
| "is_native v = False"

fun Number_js :: "platform \<Rightarrow> jsval \<Rightarrow> error + int option" where
  "Number_js pf JUndefined = Inr None"
| "Number_js pf JNull = Inr (Some 0)"
| "Number_js pf (JBool b) = Inr (Some (if b then 1 else 0))"
| "Number_js pf (JNum n) = Inr (Some n)"
| "Number_js pf JNaN = Inr None"
| "Number_js pf (JStr s) = Inr (StringToNumber pf s)"
| "Number_js pf (JNative t) = Inr None"
| "Number_js pf (JObj ps) =
     (if is_native (get_prop ps ''toString'') then Inr None
      else Inl (TypeError ''Cannot convert object to primitive value''))"

text \<open>
  \<open>v.toLowerCase()\<close>, which exists on strings only: on undefined and null the property
  read throws, on any other value the call does.
\<close>

fun toLowerCase :: "platform \<Rightarrow> jsval \<Rightarrow> error + string" where
  "toLowerCase pf (JStr s) = Inr (lower_case pf s)"
| "toLowerCase pf JUndefined =
     Inl (TypeError (''Cannot read properties of undefined (reading '' @ sq @ ''toLowerCase'' @ sq @ '')''))"
| "toLowerCase pf JNull =
     Inl (TypeError (''Cannot read properties of null (reading '' @ sq @ ''toLowerCase'' @ sq @ '')''))"
| "toLowerCase pf v = Inl (TypeError ''filterBy[condition].toLowerCase is not a function'')"

text \<open>\<open>Job.findAll\<close>\<close>

definition findAll :: "store \<Rightarrow> (error + obj list) \<times> store" where
  "findAll db = (let (rows, db') = query_select_jobs db in (Inr rows, db'))"

text \<open>
  \<open>Job.findFiltered\<close>. The callback of \<open>keys.map\<close> is a \<open>switch\<close> on the key; the case
  \<open>hasEquity\<close> returns only when the value is \<open>=== true\<close> and has no \<open>break\<close>, so any
  other value runs on into the case \<open>title\<close>. An error of the store is thrown by the
  query and passes through; the rows of a result are an array, which is truthy, so the
  check \<open>if (!jobsRes.rows)\<close> after the query never throws.
\<close>

definition title_case :: "platform \<Rightarrow> obj \<Rightarrow> string \<Rightarrow> error + conjunct" where
  "title_case pf filterBy condition =
     (case toLowerCase pf (get_prop filterBy condition) of
        Inl e \<Rightarrow> Inl e
      | Inr s \<Rightarrow> Inr (TitleLike s))"

definition filter_condition :: "platform \<Rightarrow> obj \<Rightarrow> string \<Rightarrow> error + conjunct" where
  "filter_condition pf filterBy condition =
     (if condition = ''minSalary'' then
        (case Number_js pf (get_prop filterBy condition) of
           Inl e \<Rightarrow> Inl e
         | Inr None \<Rightarrow> Inl (BadRequestError ''minSalary must be a number.'')
         | Inr (Some minSalary) \<Rightarrow> Inr (SalaryGE minSalary))
      else if condition = ''hasEquity'' then
        (if get_prop filterBy condition = JBool True then Inr EquityPos
         else title_case pf filterBy condition)
      else if condition = ''title'' then title_case pf filterBy condition
      else Inl (BadRequestError (''Invalid filter key: '' @ condition)))"

text \<open>\<open>keys.map(f)\<close> where \<open>f\<close> may throw: the first throw ends the loop.\<close>

fun map_throwing :: "('a \<Rightarrow> error + 'b) \<Rightarrow> 'a list \<Rightarrow> error + 'b list" where
  "map_throwing f [] = Inr []"
| "map_throwing f (x # xs) =
     (case f x of
        Inl e \<Rightarrow> Inl e
      | Inr y \<Rightarrow> (case map_throwing f xs of Inl e \<Rightarrow> Inl e | Inr ys \<Rightarrow> Inr (y # ys)))"

definition whereClause_of :: "conjunct list \<Rightarrow> string" where
  "whereClause_of whereQuery = join '' AND '' (map sql_of_conjunct whereQuery)"

definition findFiltered :: "platform \<Rightarrow> obj \<Rightarrow> store \<Rightarrow> (error + obj list) \<times> store" where
  "findFiltered pf filterBy db =
     (let keys = Object_keys filterBy in
      if length keys = 0 then (Inl (BadRequestError ''No data to filter by''), db)
      else
        case map_throwing (filter_condition pf filterBy) keys of
          Inl e \<Rightarrow> (Inl e, db)
        | Inr whereQuery \<Rightarrow>
            query_select_jobs_where pf (whereClause_of whereQuery) whereQuery db)"

text \<open>\<open>Job.get\<close>: \<open>delete job.companyHandle; job.company = companiesRes.rows[0]\<close>.\<close>

definition delete_prop :: "string \<Rightarrow> obj \<Rightarrow> obj" where
  "delete_prop k ob = filter (\<lambda>p. fst p \<noteq> k) ob"

fun set_prop :: "string \<Rightarrow> jsval \<Rightarrow> obj \<Rightarrow> obj" where
  "set_prop k v [] = [(k, v)]"
| "set_prop k v (p # ps) = (if fst p = k then (k, v) # ps else p # set_prop k v ps)"

definition first_row :: "obj list \<Rightarrow> jsval" where
  "first_row rows = (case rows of [] \<Rightarrow> JUndefined | r # _ \<Rightarrow> JObj r)"

definition not_found :: "int \<Rightarrow> error" where
  "not_found i = NotFoundError (''No job with id: '' @ show_int i)"

definition get :: "int \<Rightarrow> store \<Rightarrow> (error + obj) \<times> store" where
  "get i db =
     (let (rows, db1) = query_select_job_by_id [JNum i] db in
      case rows of
        [] \<Rightarrow> (Inl (not_found i), db1)
      | job # _ \<Rightarrow>
          let (companyRows, db2) = query_select_company [get_prop job ''companyHandle''] db1 in
          (Inr (set_prop ''company'' (first_row companyRows) (delete_prop ''companyHandle'' job)),
           db2))"

text \<open>
  \<open>Job.update\<close>: the column mapper is called with the empty alias object, the id is bound
  after the values, and the placeholder of the id is \<open>"$" + (values.length + 1)\<close>.
\<close>

definition update :: "platform \<Rightarrow> int \<Rightarrow> obj \<Rightarrow> store \<Rightarrow> (error + obj) \<times> store" where
  "update pf i data db =
     (case sqlForPartialUpdate data [] of
        Inl e \<Rightarrow> (Inl e, db)
      | Inr pu \<Rightarrow>
          let idIdx = length (values_of pu) + 1;
              idVarIdx = ''$'' @ show_nat idIdx;
              as = map (\<lambda>p. (column_name [] (snd p), fst p + 1)) (enumerate 0 (Object_keys data))
          in
          (case query_update_jobs pf (setCols pu) idVarIdx as idIdx (values_of pu @ [JNum i]) db of
             (Inl e, db') \<Rightarrow> (Inl e, db')
           | (Inr rows, db') \<Rightarrow>
               (case rows of
                  [] \<Rightarrow> (Inl (not_found i), db')
                | job # _ \<Rightarrow> (Inr job, db'))))"

text \<open>\<open>Job.remove\<close>\<close>

definition remove :: "int \<Rightarrow> store \<Rightarrow> (error + unit) \<times> store" where
  "remove i db =
     (let (rows, db') = query_delete_job [JNum i] db in
      case rows of
        [] \<Rightarrow> (Inl (not_found i), db')
      | job # _ \<Rightarrow> (Inr (), db'))"

section \<open>The claimed behaviour of the column mapper, in the spec's words\<close>

text \<open>
  The column of a key as the specification words it (the alias whenever the key is mapped)
  and as the fallback \<open>jsToSql[colName] || colName\<close> computes it on own properties (the
  alias when it is truthy), and the fragments \<open>"<column>"=$i\<close> built from either.
\<close>

definition claimed_column :: "obj \<Rightarrow> string \<Rightarrow> string" where
  "claimed_column m k = (case map_of m k of Some v \<Rightarrow> String_js v | None \<Rightarrow> k)"

definition alias_column :: "obj \<Rightarrow> string \<Rightarrow> string" where
  "alias_column m k =
     (case map_of m k of Some v \<Rightarrow> if truthy v then String_js v else k | None \<Rightarrow> k)"

definition fragments :: "(obj \<Rightarrow> string \<Rightarrow> string) \<Rightarrow> obj \<Rightarrow> obj \<Rightarrow> string list" where
  "fragments col d m =
     map (\<lambda>i. dq @ col m (fst (d ! i)) @ dq @ ''=$'' @ show_nat (i + 1)) [0..<length d]"

section \<open>Store invariants, the partial update in the spec's words, and test data\<close>

text \<open>
  The constraints the store keeps: job ids and company handles are unique, and the
  company handle of every job is the handle of a company.
\<close>

definition store_ok :: "store \<Rightarrow> bool" where
  "store_ok db =
     (constraints_ok (jobs db) (companies db) \<and> distinct (map c_handle (companies db)))"

text \<open>
  A well-formed update payload: an object has each key once, and the fields a job
  update may carry are title, salary and equity. The store accepts a payload when it
  rejects none of its values for their columns.
\<close>

definition update_fields :: "string list" where
  "update_fields = [''title'', ''salary'', ''equity'']"

definition update_payload :: "obj \<Rightarrow> bool" where
  "update_payload d =
     (distinct (Object_keys d) \<and> list_all (\<lambda>k. k \<in> set update_fields) (Object_keys d))"

definition accepted :: "platform \<Rightarrow> obj \<Rightarrow> bool" where
  "accepted pf d = list_all (\<lambda>p. store_value pf (fst p) (snd p) \<noteq> None) d"

text \<open>
  The partial update in the spec's words: a supplied field takes the value the store
  holds for the supplied one (null included), every other field and the id and company
  handle keep theirs.
\<close>

definition supplied :: "platform \<Rightarrow> obj \<Rightarrow> string \<Rightarrow> jsval \<Rightarrow> jsval" where
  "supplied pf d k old =
     (case map_of d k of
        None \<Rightarrow> old
      | Some v \<Rightarrow> (case store_value pf k v of Some w \<Rightarrow> w | None \<Rightarrow> old))"

definition updated_row :: "platform \<Rightarrow> obj \<Rightarrow> job_row \<Rightarrow> job_row" where
  "updated_row pf d r =
     r\<lparr> j_title := supplied pf d ''title'' (j_title r),
        j_salary := supplied pf d ''salary'' (j_salary r),
        j_equity := supplied pf d ''equity'' (j_equity r) \<rparr>"


text \<open>
  The values of \<open>minSalary\<close> the statements below speak of. Not numeric: undefined, NaN
  and a string that converts to NaN. Numeric with value \<open>v\<close>: the safe integer \<open>v\<close>
  itself, or a string with a digit in it that converts to the safe integer \<open>v\<close>.
  Booleans, null, objects and strings without a digit (empty or blank) are neither.
\<close>

definition safe_integer :: "int \<Rightarrow> bool" where
  "safe_integer n = (\<bar>n\<bar> \<le> 9007199254740991)"

definition not_numeric :: "platform \<Rightarrow> jsval \<Rightarrow> bool" where
  "not_numeric pf x =
     (case x of
        JUndefined \<Rightarrow> True
      | JNaN \<Rightarrow> True
      | JStr s \<Rightarrow> StringToNumber pf s = None
      | _ \<Rightarrow> False)"

definition numeric_as :: "platform \<Rightarrow> jsval \<Rightarrow> int \<Rightarrow> bool" where
  "numeric_as pf x v =
     (safe_integer v \<and>
      (case x of
         JNum n \<Rightarrow> n = v
       | JStr s \<Rightarrow> list_ex is_digit s \<and> StringToNumber pf s = Some v
       | _ \<Rightarrow> False))"

text \<open>The rows the repository's tests work on, and an instance of the platform.\<close>

definition job1 :: job_row where
  "job1 = \<lparr> j_id = 1, j_title = JStr ''job1'', j_salary = JNum 100,
            j_equity = JStr ''0.1'', j_company_handle = JStr ''c1'' \<rparr>"

definition job2 :: job_row where
  "job2 = \<lparr> j_id = 2, j_title = JStr ''job2'', j_salary = JNum 300,
            j_equity = JStr ''0'', j_company_handle = JStr ''c2'' \<rparr>"

definition company1 :: company_row where
  "company1 = \<lparr> c_handle = JStr ''c1'', c_name = JStr ''C1'', c_description = JStr ''Desc1'',
                c_num_employees = JNum 1, c_logo_url = JStr ''http://c1.img'' \<rparr>"

definition company2 :: company_row where
  "company2 = \<lparr> c_handle = JStr ''c2'', c_name = JStr ''C2'', c_description = JStr ''Desc2'',
                c_num_employees = JNum 2, c_logo_url = JStr ''http://c2.img'' \<rparr>"

definition test_store :: store where
  "test_store = \<lparr> jobs = [job1, job2], companies = [company1, company2], issued = [] \<rparr>"

definition test_store_rev :: store where
  "test_store_rev = \<lparr> jobs = [job2, job1], companies = [company1, company2], issued = [] \<rparr>"

fun contains :: "string \<Rightarrow> string \<Rightarrow> bool" where
  "contains p [] = (p = [])"
| "contains p (c # cs) = (take (length p) (c # cs) = p \<or> contains p cs)"

definition digits_value :: "string \<Rightarrow> int" where
  "digits_value s = foldl (\<lambda>a c. 10 * a + (int (of_char c) - 48)) 0 s"

definition lower_char :: "char \<Rightarrow> char" where
  "lower_char c = (if CHR ''A'' \<le> c \<and> c \<le> CHR ''Z'' then char_of (of_char c + (32::nat)) else c)"

definition decimal_text :: "string \<Rightarrow> bool" where
  "decimal_text s =
     (list_ex is_digit s \<and> list_all (\<lambda>c. is_digit c \<or> c = CHR ''.'') s
      \<and> length (filter (\<lambda>c. c = CHR ''.'') s) \<le> 1)"

text \<open>
  The instance: strings of digits are numbers, ASCII letters are lowered, a title matches
  when it contains the text, a column takes the values of its type (a salary given as
  digits is stored as the number), and a statement that leaves its quotes is a syntax
  error.
\<close>

definition test_store_value :: "string \<Rightarrow> jsval \<Rightarrow> jsval option" where
  "test_store_value col v =
     (if col = ''title'' then
        (case v of JStr s \<Rightarrow> Some (JStr s) | JNum n \<Rightarrow> Some (JStr (show_int n)) | _ \<Rightarrow> None)
      else if col = ''salary'' then
        (case v of
           JNum n \<Rightarrow> Some (JNum n)
         | JNull \<Rightarrow> Some JNull
         | JStr s \<Rightarrow> if s \<noteq> [] \<and> list_all is_digit s then Some (JNum (digits_value s)) else None
         | _ \<Rightarrow> None)
      else if col = ''equity'' then
        (case v of
           JNull \<Rightarrow> Some JNull
         | JStr s \<Rightarrow> if decimal_text s then Some (JStr s) else None
         | _ \<Rightarrow> None)
      else if col = ''company_handle'' then
        (case v of JStr s \<Rightarrow> Some (JStr s) | _ \<Rightarrow> None)
      else if col = ''id'' then
        (case v of JNum n \<Rightarrow> Some (JNum n) | _ \<Rightarrow> None)
      else None)"

definition test_platform :: platform where
  "test_platform =
     \<lparr> StringToNumber = (\<lambda>s. if list_all is_digit s then Some (digits_value s) else None),
       lower_case = map lower_char,
       sql_like = (\<lambda>p t. case t of JStr s \<Rightarrow> contains p (map lower_char s) | _ \<Rightarrow> False),
       store_value = test_store_value,
       run_statement = (\<lambda>st params tables. (Inl ''syntax error'', tables)) \<rparr>"

section \<open>Properties of the column mapper\<close>

lemma show_nat_1: "show_nat (Suc 0) = ''1''"
  by code_simp

lemma map_enumerate_nth:
  "map f (enumerate 0 xs) = map (\<lambda>i. f (i, xs ! i)) [0..<length xs]"
  by (rule nth_equalityI) (simp_all add: nth_enumerate_eq)

lemma Object_prototype_undefined:
  "k \<notin> set inherited_names \<Longrightarrow> Object_prototype k = JUndefined"
  by (simp add: Object_prototype_def inherited_names_def)

lemma column_name_alias:
  assumes "k \<in> set (Object_keys m) \<or> k \<notin> set inherited_names"
  shows "column_name m k = alias_column m k"
proof (cases "map_of m k")
  case None
  then have "k \<notin> set (Object_keys m)"
    by (simp add: Object_keys_def map_of_eq_None_iff)
  with assms have "Object_prototype k = JUndefined"
    by (simp add: Object_prototype_undefined)
  with None show ?thesis
    by (simp add: column_name_def alias_column_def get_prop_def)
next
  case (Some v)
  then show ?thesis
    by (simp add: column_name_def alias_column_def get_prop_def)
qed

text \<open>
  C2 (amended). For every field mapping \<open>d\<close> and alias mapping \<open>m\<close> such that no key of
  \<open>d\<close> left unmapped by \<open>m\<close> names a member inherited from \<open>Object.prototype\<close>: on the
  empty \<open>d\<close> the mapper fails with the bad request "No data"; otherwise it returns
  \<open>setCols\<close>, the fragments \<open>"<column>"=$i\<close> joined by \<open>", "\<close>, one per key of \<open>d\<close> in
  order, \<open>i\<close> counting from 1, the column being the alias when the key is mapped to a
  truthy alias and the key itself otherwise, together with the values of \<open>d\<close> in the
  same order.
\<close>

theorem sqlForPartialUpdate_fragments:
  assumes "\<forall>k \<in> set (Object_keys d). k \<in> set (Object_keys m) \<or> k \<notin> set inherited_names"
  shows "sqlForPartialUpdate d m =
     (if d = [] then Inl (BadRequestError ''No data'')
      else Inr \<lparr> setCols = join '', '' (fragments alias_column d m), values_of = map snd d \<rparr>)"
proof (cases "d = []")
  case True
  then show ?thesis
    by (simp add: sqlForPartialUpdate_def Object_keys_def)
next
  case False
  have "map (col_fragment m) (enumerate 0 (Object_keys d)) = fragments alias_column d m"
    unfolding map_enumerate_nth fragments_def
  proof (rule map_cong)
    show "[0..<length (Object_keys d)] = [0..<length d]"
      by (simp add: Object_keys_def)
  next
    fix i assume "i \<in> set [0..<length d]"
    then have i: "i < length d" by simp
    then have "Object_keys d ! i \<in> set (Object_keys d)"
      by (simp add: Object_keys_def)
    with assms have "column_name m (Object_keys d ! i) = alias_column m (Object_keys d ! i)"
      by (simp add: column_name_alias)
    with i show "col_fragment m (i, Object_keys d ! i)
        = dq @ alias_column m (fst (d ! i)) @ dq @ ''=$'' @ show_nat (i + 1)"
      by (simp add: col_fragment_def Object_keys_def)
  qed
  with False show ?thesis
    by (simp add: sqlForPartialUpdate_def Object_keys_def Object_values_def Let_def)
qed

theorem sqlForPartialUpdate_fragments_witness:
  "sqlForPartialUpdate [(''firstName'', JStr ''a''), (''age'', JNum 32)]
       [(''firstName'', JStr ''first_name'')]
     = Inr \<lparr> setCols = dq @ ''first_name'' @ dq @ ''=$1, '' @ dq @ ''age'' @ dq @ ''=$2'',
             values_of = [JStr ''a'', JNum 32] \<rparr>"
proof -
  have h: "\<forall>k \<in> set (Object_keys [(''firstName'', JStr ''a''), (''age'', JNum 32)]).
      k \<in> set (Object_keys [(''firstName'', JStr ''first_name'')]) \<or> k \<notin> set inherited_names"
    by (simp add: Object_keys_def inherited_names_def prototype_methods_def)
  have e: "join '', '' (fragments alias_column [(''firstName'', JStr ''a''), (''age'', JNum 32)]
        [(''firstName'', JStr ''first_name'')])
      = dq @ ''first_name'' @ dq @ ''=$1, '' @ dq @ ''age'' @ dq @ ''=$2''"
    by code_simp
  show ?thesis
    using sqlForPartialUpdate_fragments [OF h] e by simp
qed

text \<open>
  C2 as stated fails on an alias that is mapped but falsy: with the alias mapping
  \<open>{a: ""}\<close> the fallback keeps the key, and the column is \<open>a\<close>, not the empty alias.
\<close>

theorem sqlForPartialUpdate_falsy_alias_counterexample:
  "sqlForPartialUpdate [(''a'', JNum 1)] [(''a'', JStr '''')]
     \<noteq> Inr \<lparr> setCols = join '', '' (fragments claimed_column [(''a'', JNum 1)] [(''a'', JStr '''')]),
              values_of = map snd [(''a'', JNum 1)] \<rparr>"
  by (simp add: sqlForPartialUpdate_def Object_keys_def Object_values_def col_fragment_def
      column_name_def get_prop_def fragments_def claimed_column_def show_nat_1 dq_def)

section \<open>Properties of the update statement\<close>

lemma sqlForPartialUpdate_nonempty:
  "d \<noteq> [] \<Longrightarrow> sqlForPartialUpdate d m =
     Inr \<lparr> setCols = join '', '' (map (col_fragment m) (enumerate 0 (Object_keys d))),
           values_of = map snd d \<rparr>"
  by (simp add: sqlForPartialUpdate_def Object_keys_def Object_values_def Let_def)

lemma update_fields_not_inherited:
  "k \<in> set update_fields \<Longrightarrow> k \<notin> set inherited_names"
  by (auto simp: update_fields_def inherited_names_def prototype_methods_def)

lemma update_fields_unquoted:
  "k \<in> set update_fields \<Longrightarrow> CHR 0x22 \<notin> set k"
  by (auto simp: update_fields_def)

lemma column_name_verbatim:
  "k \<notin> set inherited_names \<Longrightarrow> column_name [] k = k"
  by (simp add: column_name_alias alias_column_def)

lemma set_column_field:
  "k \<in> set update_fields \<Longrightarrow> store_value pf k v = Some w \<Longrightarrow>
     set_column pf k v r =
       Some (r\<lparr> j_title := if k = ''title'' then w else j_title r,
                j_salary := if k = ''salary'' then w else j_salary r,
                j_equity := if k = ''equity'' then w else j_equity r \<rparr>)"
  by (auto simp: update_fields_def set_column_def job_columns_def)

lemma updated_row_Cons:
  assumes "k \<in> set update_fields" and "k \<notin> fst ` set d" and "store_value pf k v = Some w"
  shows "updated_row pf d (r\<lparr> j_title := if k = ''title'' then w else j_title r,
                j_salary := if k = ''salary'' then w else j_salary r,
                j_equity := if k = ''equity'' then w else j_equity r \<rparr>)
         = updated_row pf ((k, v) # d) r"
proof -
  from assms(2) have "map_of d k = None"
    by (simp add: map_of_eq_None_iff)
  with assms(1,3) show ?thesis
    by (auto simp: updated_row_def supplied_def update_fields_def)
qed

lemma assign_all_payload:
  assumes "distinct (map fst d)" and "\<forall>k \<in> set (map fst d). k \<in> set update_fields"
    and "length pre = n" and "accepted pf d"
  shows "assign_all pf (map (\<lambda>p. (snd p, fst p + 1)) (enumerate n (map fst d)))
           (pre @ map snd d @ post) r = Some (updated_row pf d r)"
  using assms
proof (induction d arbitrary: n pre r)
  case Nil
  show ?case by (simp add: updated_row_def supplied_def)
next
  case (Cons kv d)
  obtain k v where kv: "kv = (k, v)" by (cases kv)
  from Cons.prems kv have k: "k \<in> set update_fields" and fresh: "k \<notin> fst ` set d"
    and dist: "distinct (map fst d)" and rest: "\<forall>k \<in> set (map fst d). k \<in> set update_fields"
    and acc: "accepted pf d"
    by (auto simp: accepted_def)
  from Cons.prems(4) kv obtain w where w: "store_value pf k v = Some w"
    by (auto simp: accepted_def)
  from Cons.prems(3) have p: "param (pre @ v # map snd d @ post) (n + 1) = Some v"
    by (simp add: param_def nth_append)
  have "assign_all pf (map (\<lambda>p. (snd p, fst p + 1)) (enumerate (Suc n) (map fst d)))
          ((pre @ [v]) @ map snd d @ post) (the (set_column pf k v r))
        = Some (updated_row pf d (the (set_column pf k v r)))"
    using Cons.prems(3) by (intro Cons.IH dist rest acc) simp
  with k fresh p w show ?case
    by (simp add: kv set_column_field updated_row_Cons)
qed

lemma update_rows_map:
  assumes "\<And>r. assign_all pf as params r = Some (g r)"
  shows "update_rows pf as params key rs =
     Some (map (\<lambda>r. if JNum (j_id r) = key then g r else r) rs,
           map g (filter (\<lambda>r. JNum (j_id r) = key) rs))"
  by (induction rs) (simp_all add: assms)

lemma updated_row_frame [simp]:
  "j_id (updated_row pf d r) = j_id r"
  "j_company_handle (updated_row pf d r) = j_company_handle r"
  by (simp_all add: updated_row_def)

lemma constraints_ok_updated:
  "constraints_ok (map (\<lambda>r. if P r then updated_row pf d r else r) rs) cs = constraints_ok rs cs"
proof -
  have "map j_id (map (\<lambda>r. if P r then updated_row pf d r else r) rs) = map j_id rs"
    by (induction rs) simp_all
  moreover have "list_all (\<lambda>r. j_company_handle r \<in> set (map c_handle cs))
        (map (\<lambda>r. if P r then updated_row pf d r else r) rs)
      = list_all (\<lambda>r. j_company_handle r \<in> set (map c_handle cs)) rs"
    by (induction rs) simp_all
  ultimately show ?thesis
    unfolding constraints_ok_def by (simp only:)
qed

lemma payload_assignments:
  assumes "update_payload d"
  shows "map (\<lambda>p. (column_name [] (snd p), fst p + 1)) (enumerate 0 (Object_keys d))
       = map (\<lambda>p. (snd p, fst p + 1)) (enumerate 0 (map fst d))"
proof -
  have "\<forall>p \<in> set (enumerate 0 (Object_keys d)). column_name [] (snd p) = snd p"
  proof
    fix p assume "p \<in> set (enumerate 0 (Object_keys d))"
    then have "fst p < length (Object_keys d)" and "Object_keys d ! fst p = snd p"
      by (simp_all add: in_set_enumerate_eq)
    then have "snd p \<in> set (Object_keys d)"
      using nth_mem [of "fst p" "Object_keys d"] by simp
    with assms have "snd p \<in> set update_fields"
      by (simp add: update_payload_def list_all_iff)
    then show "column_name [] (snd p) = snd p"
      by (simp add: column_name_verbatim update_fields_not_inherited)
  qed
  then show ?thesis
    by (simp add: Object_keys_def)
qed

lemma payload_columns_ok:
  assumes "update_payload d"
  shows "list_all (\<lambda>a. fst a \<in> set job_columns) (map (\<lambda>p. (snd p, fst p + 1)) (enumerate 0 (map fst d)))"
    and "distinct (map fst (map (\<lambda>p. (snd p, fst p + 1)) (enumerate 0 (map fst d))))"
    and "\<not> list_ex (\<lambda>a. CHR 0x22 \<in> set (fst a)) (map (\<lambda>p. (snd p, fst p + 1)) (enumerate 0 (map fst d)))"
proof -
  have m: "map fst (map (\<lambda>p. (snd p, fst p + 1)) (enumerate 0 (map fst d))) = map fst d"
    by (simp add: comp_def)
  from assms show "distinct (map fst (map (\<lambda>p. (snd p, fst p + 1)) (enumerate 0 (map fst d))))"
    unfolding m by (simp add: update_payload_def Object_keys_def)
  have "list_all (\<lambda>k. k \<in> set job_columns) (map fst d)"
    using assms by (auto simp: update_payload_def Object_keys_def list_all_iff update_fields_def job_columns_def)
  then have "list_all (\<lambda>k. k \<in> set job_columns) (map fst (map (\<lambda>p. (snd p, fst p + 1)) (enumerate 0 (map fst d))))"
    unfolding m .
  then show "list_all (\<lambda>a. fst a \<in> set job_columns) (map (\<lambda>p. (snd p, fst p + 1)) (enumerate 0 (map fst d)))"
    by (simp add: list_all_iff)
  have "\<not> list_ex (\<lambda>k. CHR 0x22 \<in> set k) (map fst d)"
    using assms update_fields_unquoted
    by (auto simp: update_payload_def Object_keys_def list_all_iff list_ex_iff)
  then have "\<not> list_ex (\<lambda>k. CHR 0x22 \<in> set k) (map fst (map (\<lambda>p. (snd p, fst p + 1)) (enumerate 0 (map fst d))))"
    unfolding m .
  then show "\<not> list_ex (\<lambda>a. CHR 0x22 \<in> set (fst a)) (map (\<lambda>p. (snd p, fst p + 1)) (enumerate 0 (map fst d)))"
    by (simp add: list_ex_iff)
qed

lemma update_payload_result:
  assumes ok: "store_ok db" and pl: "update_payload d" and ac: "accepted pf d" and ne: "d \<noteq> []"
  shows "update pf i d db =
     (case filter (\<lambda>r. j_id r = i) (jobs db) of
        [] \<Rightarrow> Inl (not_found i)
      | r # _ \<Rightarrow> Inr (job_object (updated_row pf d r)),
      (record_stmt
         (UpdateJobs (join '', '' (map (col_fragment []) (enumerate 0 (Object_keys d))))
            (''$'' @ show_nat (length d + 1)))
         (map snd d @ [JNum i]) db)
        \<lparr> jobs := map (\<lambda>r. if j_id r = i then updated_row pf d r else r) (jobs db) \<rparr>)"
proof -
  let ?as = "map (\<lambda>p. (snd p, fst p + 1)) (enumerate 0 (map fst d))"
  let ?params = "map snd d @ [JNum i]"
  from pl ac have asg: "\<And>r. assign_all pf ?as ?params r = Some (updated_row pf d r)"
    using assign_all_payload [of d "[]" 0 pf "[JNum i]"]
    by (simp add: update_payload_def Object_keys_def list_all_iff)
  have rows: "update_rows pf ?as ?params (JNum i) (jobs db) =
     Some (map (\<lambda>r. if j_id r = i then updated_row pf d r else r) (jobs db),
           map (updated_row pf d) (filter (\<lambda>r. j_id r = i) (jobs db)))"
    using update_rows_map [of pf ?as ?params "updated_row pf d" "JNum i" "jobs db", OF asg] by simp
  have key: "param ?params (length d + 1) = Some (JNum i)"
    by (simp add: param_def nth_append)
  from ok have c: "constraints_ok (map (\<lambda>r. if j_id r = i then updated_row pf d r else r) (jobs db)) (companies db)"
    by (simp add: constraints_ok_updated store_ok_def)
  have q: "query_update_jobs pf s t ?as (length d + 1) ?params db =
      (Inr (map job_object (map (updated_row pf d) (filter (\<lambda>r. j_id r = i) (jobs db)))),
       (record_stmt (UpdateJobs s t) ?params db)
         \<lparr> jobs := map (\<lambda>r. if j_id r = i then updated_row pf d r else r) (jobs db) \<rparr>)" for s t
    unfolding query_update_jobs_def Let_def
    using payload_columns_ok [OF pl] key rows c
    by (simp add: record_stmt_def)
  show ?thesis
    unfolding update_def sqlForPartialUpdate_nonempty [OF ne] payload_assignments [OF pl] Let_def
    using q [of "join '', '' (map (col_fragment []) (enumerate 0 (Object_keys d)))"
        "''$'' @ show_nat (length d + 1)"]
    by (simp split: list.splits)
qed

lemma filter_unique:
  "distinct (map f xs) \<Longrightarrow> x \<in> set xs \<Longrightarrow> filter (\<lambda>y. f y = f x) xs = [x]"
proof (induction xs)
  case Nil
  then show ?case by simp
next
  case (Cons a xs)
  show ?case
  proof (cases "a = x")
    case True
    with Cons.prems have "f x \<notin> f ` set xs" by simp
    then have "\<forall>y \<in> set xs. f y \<noteq> f x" by (metis imageI)
    then have "filter (\<lambda>y. f y = f x) xs = []" by (simp add: filter_empty_conv)
    with True show ?thesis by simp
  next
    case False
    with Cons.prems have "x \<in> set xs" and "f a \<noteq> f x" by auto
    with Cons show ?thesis by simp
  qed
qed

lemma store_ok_test: "store_ok test_store"
  by (simp add: store_ok_def constraints_ok_def test_store_def job1_def job2_def
      company1_def company2_def)

lemma filter_absent: "i \<notin> f ` set xs \<Longrightarrow> filter (\<lambda>y. f y = i) xs = []"
  by (auto simp: filter_empty_conv)

lemma run_opaque_issued:
  "issued (snd (run_opaque pf st ps db)) = issued db @ [(st, ps)]"
  by (simp add: run_opaque_def record_stmt_def split: prod.splits)

lemma query_update_jobs_issued:
  "issued (snd (query_update_jobs pf s t as n ps db)) = issued db @ [(UpdateJobs s t, ps)]"
  by (simp add: query_update_jobs_def run_opaque_issued record_stmt_def Let_def
      split: option.splits prod.splits)

lemma update_issued:
  assumes "d \<noteq> []"
  shows "issued (snd (update pf i d db)) = issued db @
     [(UpdateJobs (join '', '' (map (col_fragment []) (enumerate 0 (Object_keys d))))
         (''$'' @ show_nat (length d + 1)), map snd d @ [JNum i])]"
proof -
  obtain res db' where q: "query_update_jobs pf
      (join '', '' (map (col_fragment []) (enumerate 0 (Object_keys d))))
      (''$'' @ show_nat (length d + 1))
      (map (\<lambda>p. (column_name [] (snd p), fst p + 1)) (enumerate 0 (Object_keys d)))
      (length d + 1) (map snd d @ [JNum i]) db = (res, db')"
    by (cases "query_update_jobs pf
      (join '', '' (map (col_fragment []) (enumerate 0 (Object_keys d))))
      (''$'' @ show_nat (length d + 1))
      (map (\<lambda>p. (column_name [] (snd p), fst p + 1)) (enumerate 0 (Object_keys d)))
      (length d + 1) (map snd d @ [JNum i]) db")
  from query_update_jobs_issued [of pf "join '', '' (map (col_fragment []) (enumerate 0 (Object_keys d)))"
      "''$'' @ show_nat (length d + 1)"
      "map (\<lambda>p. (column_name [] (snd p), fst p + 1)) (enumerate 0 (Object_keys d))"
      "length d + 1" "map snd d @ [JNum i]" db] q
  have "issued db' = issued db @
     [(UpdateJobs (join '', '' (map (col_fragment []) (enumerate 0 (Object_keys d))))
         (''$'' @ show_nat (length d + 1)), map snd d @ [JNum i])]"
    by simp
  with q show ?thesis
    unfolding update_def sqlForPartialUpdate_nonempty [OF assms] Let_def
    by (simp split: sum.splits list.splits)
qed

lemma verbatim_fragments:
  assumes "\<forall>k \<in> set (Object_keys d). k \<notin> set inherited_names"
  shows "map (col_fragment []) (enumerate 0 (Object_keys d))
      = map (\<lambda>n. dq @ fst (d ! n) @ dq @ ''=$'' @ show_nat (n + 1)) [0..<length d]"
  unfolding map_enumerate_nth
proof (rule map_cong)
  show "[0..<length (Object_keys d)] = [0..<length d]"
    by (simp add: Object_keys_def)
next
  fix n assume "n \<in> set [0..<length d]"
  then have n: "n < length d" by simp
  then have "Object_keys d ! n \<in> set (Object_keys d)"
    by (simp add: Object_keys_def)
  with assms have "column_name [] (Object_keys d ! n) = Object_keys d ! n"
    by (simp add: column_name_verbatim)
  with n show "col_fragment [] (n, Object_keys d ! n)
      = dq @ fst (d ! n) @ dq @ ''=$'' @ show_nat (n + 1)"
    by (simp add: col_fragment_def Object_keys_def)
qed

text \<open>
  Every key that names no inherited member is quoted as it is, whatever it is, and the
  statement is sent: no key is rejected before the store sees it.
\<close>

lemma update_set_clause_verbatim:
  assumes "d \<noteq> []" and "\<forall>k \<in> set (Object_keys d). k \<notin> set inherited_names"
  shows "issued (snd (update pf i d db)) = issued db @
     [(UpdateJobs (join '', '' (map (\<lambda>n. dq @ fst (d ! n) @ dq @ ''=$'' @ show_nat (n + 1)) [0..<length d]))
         (''$'' @ show_nat (length d + 1)), map snd d @ [JNum i])]"
  using update_issued [OF assms(1)] verbatim_fragments [OF assms(2)] by simp

lemma payload_not_inherited:
  "update_payload d \<Longrightarrow> \<forall>k \<in> set (Object_keys d). k \<notin> set inherited_names"
  by (auto simp: update_payload_def list_all_iff update_fields_not_inherited)

text \<open>
  C4 (amended). For every id and store, \<open>Job.update(id, {})\<close> fails with the bad request
  "No data", and the store is returned as it was, no statement recorded. On a store that
  keeps its constraints and a non-empty payload over title, salary and equity whose values
  the store accepts: when a job has the id, the updated row is returned, each supplied
  field with the value the store holds for it and every other field as before; when none
  has, the call fails with the not-found condition; and the one statement sent sets the
  keys of the payload, quoted, to the placeholders 1 to n, binds the values of the payload
  in order and the id last, its \<open>WHERE id =\<close> placeholder being the index of that last
  parameter.
\<close>

theorem update_outcomes:
  "update pf i [] db = (Inl (BadRequestError ''No data''), db) \<and>
   (store_ok db \<and> update_payload d \<and> accepted pf d \<and> d \<noteq> [] \<longrightarrow>
      (\<forall>r \<in> set (jobs db). j_id r = i \<longrightarrow>
          fst (update pf i d db) =
            Inr [(''id'', JNum i),
                 (''title'', supplied pf d ''title'' (j_title r)),
                 (''salary'', supplied pf d ''salary'' (j_salary r)),
                 (''equity'', supplied pf d ''equity'' (j_equity r)),
                 (''companyHandle'', j_company_handle r)]) \<and>
      (i \<notin> j_id ` set (jobs db) \<longrightarrow> fst (update pf i d db) = Inl (not_found i)) \<and>
      issued (snd (update pf i d db)) = issued db @
        [(UpdateJobs
            (join '', '' (map (\<lambda>n. dq @ fst (d ! n) @ dq @ ''=$'' @ show_nat (n + 1)) [0..<length d]))
            (''$'' @ show_nat (length (map snd d @ [JNum i]))),
          map snd d @ [JNum i])])"
proof (intro conjI impI ballI)
  show "update pf i [] db = (Inl (BadRequestError ''No data''), db)"
    by (simp add: update_def sqlForPartialUpdate_def Object_keys_def)
next
  fix r
  assume h: "store_ok db \<and> update_payload d \<and> accepted pf d \<and> d \<noteq> []"
    and r: "r \<in> set (jobs db)" "j_id r = i"
  from h have "distinct (map j_id (jobs db))"
    by (simp add: store_ok_def constraints_ok_def)
  with r have "filter (\<lambda>y. j_id y = i) (jobs db) = [r]"
    using filter_unique [of j_id "jobs db" r] by simp
  with h r show "fst (update pf i d db) =
            Inr [(''id'', JNum i),
                 (''title'', supplied pf d ''title'' (j_title r)),
                 (''salary'', supplied pf d ''salary'' (j_salary r)),
                 (''equity'', supplied pf d ''equity'' (j_equity r)),
                 (''companyHandle'', j_company_handle r)]"
    by (simp add: update_payload_result job_object_def updated_row_def)
next
  assume h: "store_ok db \<and> update_payload d \<and> accepted pf d \<and> d \<noteq> []"
    and "i \<notin> j_id ` set (jobs db)"
  then have "filter (\<lambda>y. j_id y = i) (jobs db) = []"
    by (simp add: filter_absent)
  with h show "fst (update pf i d db) = Inl (not_found i)"
    by (simp add: update_payload_result)
next
  assume h: "store_ok db \<and> update_payload d \<and> accepted pf d \<and> d \<noteq> []"
  then show "issued (snd (update pf i d db)) = issued db @
        [(UpdateJobs
            (join '', '' (map (\<lambda>n. dq @ fst (d ! n) @ dq @ ''=$'' @ show_nat (n + 1)) [0..<length d]))
            (''$'' @ show_nat (length (map snd d @ [JNum i]))),
          map snd d @ [JNum i])]"
    using update_set_clause_verbatim [of d pf i db] payload_not_inherited [of d] by simp
qed

lemma payload_title: "update_payload [(''title'', JStr ''Updated'')]"
  by (simp add: update_payload_def Object_keys_def update_fields_def)

lemma accepted_title: "accepted test_platform [(''title'', JStr ''Updated'')]"
  by (simp add: accepted_def test_platform_def test_store_value_def)

theorem update_outcomes_witness:
  "fst (update test_platform 1 [(''title'', JStr ''Updated'')] test_store)
     = Inr [(''id'', JNum 1), (''title'', JStr ''Updated''), (''salary'', JNum 100),
            (''equity'', JStr ''0.1''), (''companyHandle'', JStr ''c1'')] \<and>
   fst (update test_platform 0 [(''title'', JStr ''Updated'')] test_store)
     = Inl (NotFoundError ''No job with id: 0'') \<and>
   issued (snd (update test_platform 1 [(''title'', JStr ''Updated'')] test_store))
     = [(UpdateJobs (dq @ ''title'' @ dq @ ''=$1'') ''$2'', [JStr ''Updated'', JNum 1])] \<and>
   update test_platform 1 [] test_store = (Inl (BadRequestError ''No data''), test_store)"
proof -
  have h: "store_ok test_store \<and> update_payload [(''title'', JStr ''Updated'')]
      \<and> accepted test_platform [(''title'', JStr ''Updated'')]
      \<and> [(''title'', JStr ''Updated'')] \<noteq> []"
    by (simp add: store_ok_test payload_title accepted_title)
  have m: "job1 \<in> set (jobs test_store)" "j_id job1 = 1" "0 \<notin> j_id ` set (jobs test_store)"
    by (simp_all add: test_store_def job1_def job2_def)
  have e: "[(''id'', JNum 1),
        (''title'', supplied test_platform [(''title'', JStr ''Updated'')] ''title'' (j_title job1)),
        (''salary'', supplied test_platform [(''title'', JStr ''Updated'')] ''salary'' (j_salary job1)),
        (''equity'', supplied test_platform [(''title'', JStr ''Updated'')] ''equity'' (j_equity job1)),
        (''companyHandle'', j_company_handle job1)]
      = [(''id'', JNum 1), (''title'', JStr ''Updated''), (''salary'', JNum 100),
            (''equity'', JStr ''0.1''), (''companyHandle'', JStr ''c1'')]"
    "not_found 0 = NotFoundError ''No job with id: 0''"
    "join '', '' (map (\<lambda>n. dq @ fst ([(''title'', JStr ''Updated'')] ! n) @ dq @ ''=$'' @ show_nat (n + 1))
        [0..<length [(''title'', JStr ''Updated'')]])
      = dq @ ''title'' @ dq @ ''=$1''"
    "''$'' @ show_nat (length (map snd [(''title'', JStr ''Updated'')] @ [JNum 1])) = ''$2''"
    "issued test_store = []"
    by code_simp+
  from update_outcomes [of test_platform 1 test_store "[(''title'', JStr ''Updated'')]"]
    update_outcomes [of test_platform 0 test_store "[(''title'', JStr ''Updated'')]"] h m e
  show ?thesis by simp
qed

text \<open>
  C4 as stated fails on data outside title, salary and equity, and on a value the store
  rejects: with the payload \<open>{companyHandle: "c2"}\<close> the statement names a column the
  table does not have, and the store's fault is raised, for the id of a job (no updated
  row) and for an id no job has (no not-found condition); with \<open>{salary: "abc"}\<close> the
  store rejects the value.
\<close>

theorem update_rejected_counterexample:
  "1 \<in> set (map j_id (jobs test_store)) \<and>
   fst (update test_platform 1 [(''companyHandle'', JStr ''c2'')] test_store)
     = Inl (StoreFault ''column'') \<and>
   0 \<notin> set (map j_id (jobs test_store)) \<and>
   fst (update test_platform 0 [(''companyHandle'', JStr ''c2'')] test_store)
     = Inl (StoreFault ''column'') \<and>
   fst (update test_platform 1 [(''salary'', JStr ''abc'')] test_store)
     = Inl (StoreFault ''value'')"
  by code_simp













text \<open>
  C10 at the payload \<open>{constructor: "x"}\<close>: the alias object is empty, but the lookup
  \<open>jsToSql["constructor"]\<close> finds the member inherited from \<open>Object.prototype\<close>, which is
  truthy, so the column in the SET clause is the text of that function and not the key.
\<close>

theorem update_inherited_key_renamed:
  "issued (snd (update pf 1 [(''constructor'', JStr ''x'')] test_store))
     = [(UpdateJobs (dq @ ''function Object() { [native code] }'' @ dq @ ''=$1'') ''$2'',
         [JStr ''x'', JNum 1])]"
proof -
  have "join '', '' (map (col_fragment []) (enumerate 0 (Object_keys [(''constructor'', JStr ''x'')])))
      = dq @ ''function Object() { [native code] }'' @ dq @ ''=$1''"
    "''$'' @ show_nat (length [(''constructor'', JStr ''x'')] + 1) = ''$2''"
    "issued test_store = []"
    by code_simp+
  with update_issued [of "[(''constructor'', JStr ''x'')]" pf 1 test_store] show ?thesis
    by simp
qed

section \<open>Properties of the lookups\<close>

lemma param_first [simp]: "param (v # vs) (Suc 0) = Some v"
  by (simp add: param_def)

lemma select_job_by_id:
  "query_select_job_by_id [JNum i] db =
     (map job_object (filter (\<lambda>r. j_id r = i) (jobs db)), record_stmt SelectJobById [JNum i] db)"
proof -
  have "filter (\<lambda>r. param [JNum i] 1 = Some (JNum (j_id r))) (jobs db)
      = filter (\<lambda>r. j_id r = i) (jobs db)"
    by (rule filter_cong) auto
  then show ?thesis
    unfolding query_select_job_by_id_def by (simp only:)
qed

lemma select_company:
  "query_select_company [h] db =
     (map company_object (filter (\<lambda>c. c_handle c = h) (companies db)),
      record_stmt SelectCompanyByHandle [h] db)"
proof -
  have "filter (\<lambda>c. param [h] 1 = Some (c_handle c)) (companies db)
      = filter (\<lambda>c. c_handle c = h) (companies db)"
    by (rule filter_cong) auto
  then show ?thesis
    unfolding query_select_company_def by (simp only:)
qed

lemma get_job_without_handle:
  "set_prop ''company'' v (delete_prop ''companyHandle'' (job_object r)) =
     [(''id'', JNum (j_id r)), (''title'', j_title r), (''salary'', j_salary r),
      (''equity'', j_equity r), (''company'', v)]"
  by (simp add: job_object_def delete_prop_def)

text \<open>
  C5. On a store that keeps its constraints, \<open>Job.get\<close> of the id of a job returns the
  object with the keys id, title, salary, equity and company, in which \<open>company\<close> holds
  the handle, name, description, numEmployees and logoUrl of the company the job refers
  to, and which has no key \<open>companyHandle\<close>; two statements are sent. For an id no job
  has, the call fails with the not-found condition after the job lookup alone.
\<close>

theorem get_outcomes:
  "(store_ok db \<and> r \<in> set (jobs db) \<and> j_id r = i \<longrightarrow>
      (\<exists>c \<in> set (companies db). c_handle c = j_company_handle r \<and>
         get i db =
           (Inr [(''id'', JNum i), (''title'', j_title r), (''salary'', j_salary r),
                 (''equity'', j_equity r),
                 (''company'', JObj [(''handle'', c_handle c), (''name'', c_name c),
                    (''description'', c_description c), (''numEmployees'', c_num_employees c),
                    (''logoUrl'', c_logo_url c)])],
            record_stmt SelectCompanyByHandle [j_company_handle r]
              (record_stmt SelectJobById [JNum i] db)))) \<and>
   (i \<notin> j_id ` set (jobs db) \<longrightarrow>
      get i db = (Inl (not_found i), record_stmt SelectJobById [JNum i] db))"
proof (intro conjI impI)
  assume h: "store_ok db \<and> r \<in> set (jobs db) \<and> j_id r = i"
  then have one: "filter (\<lambda>y. j_id y = i) (jobs db) = [r]"
    using filter_unique [of j_id "jobs db" r] by (auto simp: store_ok_def constraints_ok_def)
  from h have "j_company_handle r \<in> set (map c_handle (companies db))"
    by (auto simp: store_ok_def constraints_ok_def list_all_iff)
  then obtain c where c: "c \<in> set (companies db)" "c_handle c = j_company_handle r"
    by auto
  from h c have co: "filter (\<lambda>y. c_handle y = j_company_handle r) (companies db) = [c]"
    using filter_unique [of c_handle "companies db" c] by (simp add: store_ok_def)
  have hd: "get_prop (job_object r) ''companyHandle'' = j_company_handle r"
    by (simp add: get_prop_def job_object_def)
  have cs: "companies (record_stmt SelectJobById [JNum i] db) = companies db"
    by (simp add: record_stmt_def)
  from h have "get i db =
      (Inr [(''id'', JNum i), (''title'', j_title r), (''salary'', j_salary r),
                 (''equity'', j_equity r), (''company'', JObj (company_object c))],
       record_stmt SelectCompanyByHandle [j_company_handle r]
              (record_stmt SelectJobById [JNum i] db))"
    by (simp add: get_def select_job_by_id one hd select_company cs co first_row_def
        get_job_without_handle)
  with c show "\<exists>c \<in> set (companies db). c_handle c = j_company_handle r \<and>
         get i db =
           (Inr [(''id'', JNum i), (''title'', j_title r), (''salary'', j_salary r),
                 (''equity'', j_equity r),
                 (''company'', JObj [(''handle'', c_handle c), (''name'', c_name c),
                    (''description'', c_description c), (''numEmployees'', c_num_employees c),
                    (''logoUrl'', c_logo_url c)])],
            record_stmt SelectCompanyByHandle [j_company_handle r]
              (record_stmt SelectJobById [JNum i] db))"
    by (intro bexI [of _ c]) (simp_all add: company_object_def)
next
  assume "i \<notin> j_id ` set (jobs db)"
  then have "filter (\<lambda>y. j_id y = i) (jobs db) = []"
    by (simp add: filter_absent)
  then show "get i db = (Inl (not_found i), record_stmt SelectJobById [JNum i] db)"
    by (simp add: get_def select_job_by_id)
qed

theorem get_outcomes_witness:
  "fst (get 1 test_store) =
     Inr [(''id'', JNum 1), (''title'', JStr ''job1''), (''salary'', JNum 100),
          (''equity'', JStr ''0.1''),
          (''company'', JObj [(''handle'', JStr ''c1''), (''name'', JStr ''C1''),
             (''description'', JStr ''Desc1''), (''numEmployees'', JNum 1),
             (''logoUrl'', JStr ''http://c1.img'')])] \<and>
   get 0 test_store =
     (Inl (NotFoundError ''No job with id: 0''), record_stmt SelectJobById [JNum 0] test_store)"
proof -
  have m: "store_ok test_store \<and> job1 \<in> set (jobs test_store) \<and> j_id job1 = 1"
    "0 \<notin> j_id ` set (jobs test_store)"
    by (simp_all add: store_ok_test) (simp_all add: test_store_def job1_def job2_def)
  have e: "not_found 0 = NotFoundError ''No job with id: 0''"
    by code_simp
  from get_outcomes [of test_store job1 1] get_outcomes [of test_store job1 0] m e
  show ?thesis
    by (auto simp: test_store_def job1_def company1_def company2_def)
qed

section \<open>Properties of the listing and of the removal\<close>

lemma job1_before_job2: "\<not> (''job2'' \<le> ''job1'')"
  by code_simp

lemma title_key_le:
  "j_title x = JStr s \<Longrightarrow> j_title y = JStr t \<Longrightarrow> title_key x \<le> title_key y \<Longrightarrow> s \<le> t"
  by (simp add: title_key_def)

text \<open>
  C7. \<open>Job.findAll\<close> returns, for a list of rows that holds every persisted job once per
  occurrence, the objects \<open>{id, title, salary, equity, companyHandle}\<close> of those rows
  (with \<open>companyHandle\<close>, without \<open>company\<close>), and the list is ordered by title: of two
  rows with text titles the earlier has the smaller or equal title, and a job titled
  \<open>job1\<close> stands before a job titled \<open>job2\<close>, in whatever order the table holds them.
\<close>

theorem findAll_sorted:
  "\<exists>rs. findAll db =
       (Inr (map (\<lambda>r. [(''id'', JNum (j_id r)), (''title'', j_title r), (''salary'', j_salary r),
                        (''equity'', j_equity r), (''companyHandle'', j_company_handle r)]) rs),
        record_stmt SelectJobs [] db)
     \<and> mset rs = mset (jobs db)
     \<and> (\<forall>a b s t. a \<le> b \<and> b < length rs \<and> j_title (rs ! a) = JStr s \<and> j_title (rs ! b) = JStr t
           \<longrightarrow> s \<le> t)
     \<and> (\<forall>a b. a < length rs \<and> b < length rs
           \<and> j_title (rs ! a) = JStr ''job1'' \<and> j_title (rs ! b) = JStr ''job2'' \<longrightarrow> a < b)"
proof -
  let ?rs = "order_by_title (jobs db)"
  have s: "sorted (map title_key ?rs)"
    by (simp add: order_by_title_def)
  have le: "title_key (?rs ! a) \<le> title_key (?rs ! b)" if "a \<le> b" "b < length ?rs" for a b
    using sorted_nth_mono [OF s, of a b] that by simp
  have 1: "findAll db =
       (Inr (map (\<lambda>r. [(''id'', JNum (j_id r)), (''title'', j_title r), (''salary'', j_salary r),
                        (''equity'', j_equity r), (''companyHandle'', j_company_handle r)]) ?rs),
        record_stmt SelectJobs [] db)"
    by (simp add: findAll_def query_select_jobs_def job_object_def)
  have 2: "mset ?rs = mset (jobs db)"
    by (simp add: order_by_title_def)
  have 3: "\<forall>a b s t. a \<le> b \<and> b < length ?rs \<and> j_title (?rs ! a) = JStr s
      \<and> j_title (?rs ! b) = JStr t \<longrightarrow> s \<le> t"
    using le title_key_le by blast
  have 4: "\<forall>a b. a < length ?rs \<and> b < length ?rs
           \<and> j_title (?rs ! a) = JStr ''job1'' \<and> j_title (?rs ! b) = JStr ''job2'' \<longrightarrow> a < b"
  proof (intro allI impI)
    fix a b
    assume h: "a < length ?rs \<and> b < length ?rs
           \<and> j_title (?rs ! a) = JStr ''job1'' \<and> j_title (?rs ! b) = JStr ''job2''"
    show "a < b"
    proof (rule ccontr)
      assume "\<not> a < b"
      then have "b \<le> a" by simp
      with h have "title_key (?rs ! b) \<le> title_key (?rs ! a)"
        by (simp add: le)
      with h have "''job2'' \<le> ''job1''"
        using title_key_le [of "?rs ! b" "''job2''" "?rs ! a" "''job1''"] by simp
      with job1_before_job2 show False by simp
    qed
  qed
  from 1 2 3 4 show ?thesis by (intro exI [of _ ?rs] conjI)
qed

theorem findAll_sorted_witness:
  "(\<exists>rs. fst (findAll test_store_rev) =
       Inr (map (\<lambda>r. [(''id'', JNum (j_id r)), (''title'', j_title r), (''salary'', j_salary r),
                        (''equity'', j_equity r), (''companyHandle'', j_company_handle r)]) rs)
     \<and> mset rs = mset [job2, job1]) \<and>
   fst (findAll test_store_rev) =
     Inr [[(''id'', JNum 1), (''title'', JStr ''job1''), (''salary'', JNum 100),
           (''equity'', JStr ''0.1''), (''companyHandle'', JStr ''c1'')],
          [(''id'', JNum 2), (''title'', JStr ''job2''), (''salary'', JNum 300),
           (''equity'', JStr ''0''), (''companyHandle'', JStr ''c2'')]] \<and>
   fst (findAll test_store) = fst (findAll test_store_rev)"
proof -
  from findAll_sorted [of test_store_rev]
  obtain rs where rs: "findAll test_store_rev =
       (Inr (map (\<lambda>r. [(''id'', JNum (j_id r)), (''title'', j_title r), (''salary'', j_salary r),
                        (''equity'', j_equity r), (''companyHandle'', j_company_handle r)]) rs),
        record_stmt SelectJobs [] test_store_rev)"
    "mset rs = mset (jobs test_store_rev)"
    and ord: "\<forall>a b. a < length rs \<and> b < length rs
           \<and> j_title (rs ! a) = JStr ''job1'' \<and> j_title (rs ! b) = JStr ''job2'' \<longrightarrow> a < b"
    by blast
  have j: "jobs test_store_rev = [job2, job1]"
    by (simp add: test_store_rev_def)
  from rs(2) j have "length rs = 2"
    using mset_eq_length [of rs "[job2, job1]"] by simp
  then obtain x y where xy: "rs = [x, y]"
    by (cases rs; cases "tl rs") auto
  with rs(2) j have "(x = job2 \<and> y = job1) \<or> (x = job1 \<and> y = job2)"
    by (auto simp: add_eq_conv_ex)
  moreover have "\<not> (x = job2 \<and> y = job1)"
  proof
    assume "x = job2 \<and> y = job1"
    with xy ord [rule_format, of 1 0] show False
      by (simp add: job1_def job2_def)
  qed
  ultimately have "rs = [job1, job2]" using xy by simp
  with rs(1) have r: "fst (findAll test_store_rev) =
     Inr [[(''id'', JNum 1), (''title'', JStr ''job1''), (''salary'', JNum 100),
           (''equity'', JStr ''0.1''), (''companyHandle'', JStr ''c1'')],
          [(''id'', JNum 2), (''title'', JStr ''job2''), (''salary'', JNum 300),
           (''equity'', JStr ''0''), (''companyHandle'', JStr ''c2'')]]"
    by (simp add: job1_def job2_def)
  have t: "fst (findAll test_store) = fst (findAll test_store_rev)"
    by code_simp
  from rs(1,2) j have "\<exists>rs. fst (findAll test_store_rev) =
       Inr (map (\<lambda>r. [(''id'', JNum (j_id r)), (''title'', j_title r), (''salary'', j_salary r),
                        (''equity'', j_equity r), (''companyHandle'', j_company_handle r)]) rs)
     \<and> mset rs = mset [job2, job1]"
    by (intro exI [of _ rs]) simp
  with r t show ?thesis by simp
qed

text \<open>
  C8. \<open>Job.remove\<close> of the id of a job returns nothing, leaves the jobs with other ids,
  and a lookup by that id afterwards returns no rows. For an id no job has it fails with
  the not-found condition and the jobs are as before. The companies are never touched.
\<close>

theorem remove_outcomes:
  "(i \<in> j_id ` set (jobs db) \<longrightarrow>
      fst (remove i db) = Inr ()
      \<and> jobs (snd (remove i db)) = filter (\<lambda>r. j_id r \<noteq> i) (jobs db)
      \<and> fst (query_select_job_by_id [JNum i] (snd (remove i db))) = []) \<and>
   (i \<notin> j_id ` set (jobs db) \<longrightarrow>
      fst (remove i db) = Inl (not_found i) \<and> jobs (snd (remove i db)) = jobs db) \<and>
   companies (snd (remove i db)) = companies db"
proof -
  have del: "query_delete_job [JNum i] db =
     (map (\<lambda>r. [(''id'', JNum (j_id r))]) (filter (\<lambda>r. j_id r = i) (jobs db)),
      record_stmt DeleteJob [JNum i] (db\<lparr> jobs := filter (\<lambda>r. j_id r \<noteq> i) (jobs db) \<rparr>))"
  proof -
    have "filter (\<lambda>r. param [JNum i] 1 = Some (JNum (j_id r))) (jobs db)
        = filter (\<lambda>r. j_id r = i) (jobs db)"
      by (rule filter_cong) auto
    moreover have "filter (\<lambda>r. param [JNum i] 1 \<noteq> Some (JNum (j_id r))) (jobs db)
        = filter (\<lambda>r. j_id r \<noteq> i) (jobs db)"
      by (rule filter_cong) auto
    ultimately show ?thesis
      unfolding query_delete_job_def by (simp only:)
  qed
  have present: "filter (\<lambda>r. j_id r = i) (jobs db) \<noteq> []" if "i \<in> j_id ` set (jobs db)"
    using that by (auto simp: filter_empty_conv)
  have gone: "filter (\<lambda>r. j_id r = i) (filter (\<lambda>r. j_id r \<noteq> i) (jobs db)) = []"
    by (simp add: filter_empty_conv)
  have keep: "filter (\<lambda>r. j_id r \<noteq> i) (jobs db) = jobs db" if "i \<notin> j_id ` set (jobs db)"
    using that by (auto simp: filter_id_conv)
  show ?thesis
  proof (intro conjI impI)
    assume i: "i \<in> j_id ` set (jobs db)"
    from present [OF i] show "fst (remove i db) = Inr ()"
      by (simp add: remove_def del split: list.splits)
    from present [OF i] show j: "jobs (snd (remove i db)) = filter (\<lambda>r. j_id r \<noteq> i) (jobs db)"
      by (simp add: remove_def del record_stmt_def split: list.splits)
    show "fst (query_select_job_by_id [JNum i] (snd (remove i db))) = []"
      by (simp add: select_job_by_id j gone)
  next
    assume i: "i \<notin> j_id ` set (jobs db)"
    then show "fst (remove i db) = Inl (not_found i)"
      by (simp add: remove_def del filter_absent)
    from i show "jobs (snd (remove i db)) = jobs db"
      by (simp add: remove_def del filter_absent record_stmt_def keep)
  next
    show "companies (snd (remove i db)) = companies db"
      by (simp add: remove_def del record_stmt_def split: list.splits)
  qed
qed

theorem remove_outcomes_witness:
  "fst (remove 1 test_store) = Inr () \<and> jobs (snd (remove 1 test_store)) = [job2] \<and>
   fst (query_select_job_by_id [JNum 1] (snd (remove 1 test_store))) = [] \<and>
   fst (remove 0 test_store) = Inl (NotFoundError ''No job with id: 0'') \<and>
   jobs (snd (remove 0 test_store)) = [job1, job2]"
proof -
  have m1: "1 \<in> j_id ` set (jobs test_store)"
    and m0: "0 \<notin> j_id ` set (jobs test_store)"
    and j: "jobs test_store = [job1, job2]"
    by (simp_all add: test_store_def job1_def job2_def)
  have e: "not_found 0 = NotFoundError ''No job with id: 0''"
    by code_simp
  from remove_outcomes [of 1 test_store, THEN conjunct1, rule_format, OF m1]
    remove_outcomes [of 0 test_store, THEN conjunct2, THEN conjunct1, rule_format, OF m0]
  show ?thesis
    by (simp add: j e job1_def job2_def)
qed

section \<open>Properties of the filter builder\<close>

lemma map_throwing_append:
  "map_throwing f (xs @ ys) =
     (case map_throwing f xs of
        Inl e \<Rightarrow> Inl e
      | Inr as \<Rightarrow> (case map_throwing f ys of Inl e \<Rightarrow> Inl e | Inr bs \<Rightarrow> Inr (as @ bs)))"
  by (induction xs) (simp_all split: sum.splits)


lemma map_throwing_Inr:
  "map_throwing f ks = Inr cs \<Longrightarrow> k \<in> set ks \<Longrightarrow> f k = Inr c \<Longrightarrow> c \<in> set cs"
  by (induction ks arbitrary: cs) (auto split: sum.splits)






lemma findFiltered_throws:
  "f \<noteq> [] \<Longrightarrow> map_throwing (filter_condition pf f) (Object_keys f) = Inl e \<Longrightarrow>
     findFiltered pf f db = (Inl e, db)"
  by (simp add: findFiltered_def Object_keys_def)

lemma findFiltered_first_error:
  assumes "Object_keys f = ks @ k # ks'" and "map_throwing (filter_condition pf f) ks = Inr cs"
    and "filter_condition pf f k = Inl e"
  shows "findFiltered pf f db = (Inl e, db)"
proof -
  from assms(1) have ne: "f \<noteq> []" by (auto simp: Object_keys_def)
  from assms have "map_throwing (filter_condition pf f) (Object_keys f) = Inl e"
    by (simp add: map_throwing_append)
  with ne show ?thesis by (simp add: findFiltered_throws)
qed


lemma findFiltered_reaches_store:
  "f \<noteq> [] \<Longrightarrow> map_throwing (filter_condition pf f) (Object_keys f) = Inr cs \<Longrightarrow>
     findFiltered pf f db = query_select_jobs_where pf (whereClause_of cs) cs db"
  by (simp add: findFiltered_def Object_keys_def)

lemma findFiltered_queries:
  "f \<noteq> [] \<Longrightarrow> map_throwing (filter_condition pf f) (Object_keys f) = Inr cs \<Longrightarrow>
   \<not> list_ex breaks_literal cs \<Longrightarrow>
     findFiltered pf f db =
       (Inr (map job_object (order_by_title (filter (\<lambda>r. list_all (\<lambda>c. holds pf c r) cs) (jobs db)))),
        record_stmt (SelectJobsWhere (whereClause_of cs)) [] db)"
  by (simp add: findFiltered_reaches_store query_select_jobs_where_def)

lemma findFiltered_issued:
  "f \<noteq> [] \<Longrightarrow> map_throwing (filter_condition pf f) (Object_keys f) = Inr cs \<Longrightarrow>
     issued (snd (findFiltered pf f db)) = issued db @ [(SelectJobsWhere (whereClause_of cs), [])]"
  by (simp add: findFiltered_reaches_store query_select_jobs_where_def run_opaque_issued
      record_stmt_def)




lemma not_numeric_NaN: "not_numeric pf x \<Longrightarrow> Number_js pf x = Inr None"
  by (cases x) (simp_all add: not_numeric_def)

lemma numeric_as_value: "numeric_as pf x v \<Longrightarrow> Number_js pf x = Inr (Some v)"
  by (cases x) (simp_all add: numeric_as_def)

lemma holds_salary:
  "list_all (\<lambda>c. holds pf c r) [SalaryGE v] = (case j_salary r of JNum s \<Rightarrow> v \<le> s | _ \<Rightarrow> False)"
  by simp

text \<open>
  C3 (amended). For a mapping with the key \<open>minSalary\<close>: when its value is not numeric
  (undefined, NaN or a string that converts to NaN) and every key before it converts
  without error, the call fails with the bad request "minSalary must be a number." and the
  store is untouched; when its value is the safe integer \<open>v\<close>, or a string with a digit
  that converts to it, and no key fails, the conjunct \<open>salary >= v\<close> is among those of
  the WHERE clause sent; and \<open>findFiltered({minSalary: x})\<close> for such an \<open>x\<close> returns the
  objects of exactly the jobs whose salary is at least \<open>v\<close>. Booleans, null and strings
  without a digit are left out.
\<close>

theorem findFiltered_minSalary:
  "(map_of f ''minSalary'' = Some x \<and> not_numeric pf x
      \<and> map_throwing (filter_condition pf f) (takeWhile (\<lambda>k. k \<noteq> ''minSalary'') (Object_keys f))
          = Inr cs0 \<longrightarrow>
      findFiltered pf f db = (Inl (BadRequestError ''minSalary must be a number.''), db)) \<and>
   (map_of f ''minSalary'' = Some x \<and> numeric_as pf x v
      \<and> map_throwing (filter_condition pf f) (Object_keys f) = Inr cs \<longrightarrow>
      SalaryGE v \<in> set cs \<and>
      ''salary >= '' @ show_int v \<in> set (map sql_of_conjunct cs) \<and>
      issued (snd (findFiltered pf f db)) =
        issued db @ [(SelectJobsWhere (join '' AND '' (map sql_of_conjunct cs)), [])]) \<and>
   (numeric_as pf x v \<longrightarrow>
      (\<exists>rs. findFiltered pf [(''minSalary'', x)] db =
         (Inr (map (\<lambda>r. [(''id'', JNum (j_id r)), (''title'', j_title r), (''salary'', j_salary r),
                          (''equity'', j_equity r), (''companyHandle'', j_company_handle r)]) rs),
          record_stmt (SelectJobsWhere (''salary >= '' @ show_int v)) [] db)
       \<and> mset rs = mset (filter (\<lambda>r. case j_salary r of JNum s \<Rightarrow> v \<le> s | _ \<Rightarrow> False) (jobs db))))"
proof (intro conjI impI)
  assume h: "map_of f ''minSalary'' = Some x \<and> not_numeric pf x
      \<and> map_throwing (filter_condition pf f) (takeWhile (\<lambda>k. k \<noteq> ''minSalary'') (Object_keys f))
          = Inr cs0"
  then have mem: "''minSalary'' \<in> set (Object_keys f)"
    by (auto simp: Object_keys_def dest: map_of_SomeD intro: rev_image_eqI)
  then have "dropWhile (\<lambda>k. k \<noteq> ''minSalary'') (Object_keys f) \<noteq> []"
    by (auto simp: dropWhile_eq_Nil_conv)
  then obtain rest where d: "dropWhile (\<lambda>k. k \<noteq> ''minSalary'') (Object_keys f) = ''minSalary'' # rest"
    using hd_dropWhile [of "\<lambda>k. k \<noteq> ''minSalary''" "Object_keys f"]
    by (cases "dropWhile (\<lambda>k. k \<noteq> ''minSalary'') (Object_keys f)") auto
  have split: "Object_keys f = takeWhile (\<lambda>k. k \<noteq> ''minSalary'') (Object_keys f) @ ''minSalary'' # rest"
    using takeWhile_dropWhile_id [of "\<lambda>k. k \<noteq> ''minSalary''" "Object_keys f"] d by simp
  from h have "get_prop f ''minSalary'' = x" and "Number_js pf x = Inr None"
    by (simp_all add: get_prop_def not_numeric_NaN)
  then have "filter_condition pf f ''minSalary'' = Inl (BadRequestError ''minSalary must be a number.'')"
    by (simp add: filter_condition_def)
  with h show "findFiltered pf f db = (Inl (BadRequestError ''minSalary must be a number.''), db)"
    using findFiltered_first_error [OF split, of pf cs0] by simp
next
  assume h: "map_of f ''minSalary'' = Some x \<and> numeric_as pf x v
      \<and> map_throwing (filter_condition pf f) (Object_keys f) = Inr cs"
  then have mem: "''minSalary'' \<in> set (Object_keys f)"
    by (auto simp: Object_keys_def dest: map_of_SomeD intro: rev_image_eqI)
  then have ne: "f \<noteq> []" by (auto simp: Object_keys_def)
  from h have "numeric_as pf x v" by simp
  then have "Number_js pf x = Inr (Some v)"
    by (rule numeric_as_value)
  moreover from h have "get_prop f ''minSalary'' = x"
    by (simp add: get_prop_def)
  ultimately have "filter_condition pf f ''minSalary'' = Inr (SalaryGE v)"
    by (simp add: filter_condition_def)
  with h mem show c: "SalaryGE v \<in> set cs"
    using map_throwing_Inr [of "filter_condition pf f" "Object_keys f" cs "''minSalary''" "SalaryGE v"]
    by simp
  have "sql_of_conjunct (SalaryGE v) \<in> sql_of_conjunct ` set cs"
    using c by (rule imageI)
  then show "''salary >= '' @ show_int v \<in> set (map sql_of_conjunct cs)"
    by simp
  from h ne show "issued (snd (findFiltered pf f db)) =
        issued db @ [(SelectJobsWhere (join '' AND '' (map sql_of_conjunct cs)), [])]"
    by (simp add: findFiltered_issued whereClause_of_def)
next
  assume h: "numeric_as pf x v"
  let ?P = "\<lambda>r. case j_salary r of JNum s \<Rightarrow> v \<le> s | _ \<Rightarrow> False"
  from h have "Number_js pf x = Inr (Some v)"
    by (rule numeric_as_value)
  then have "map_throwing (filter_condition pf [(''minSalary'', x)]) (Object_keys [(''minSalary'', x)])
      = Inr [SalaryGE v]"
    by (simp add: Object_keys_def filter_condition_def get_prop_def)
  then have "findFiltered pf [(''minSalary'', x)] db =
        (Inr (map job_object (order_by_title (filter ?P (jobs db)))),
         record_stmt (SelectJobsWhere (''salary >= '' @ show_int v)) [] db)"
    using findFiltered_queries [of "[(''minSalary'', x)]" pf "[SalaryGE v]" db]
    by (simp add: whereClause_of_def)
  then have 1: "findFiltered pf [(''minSalary'', x)] db =
         (Inr (map (\<lambda>r. [(''id'', JNum (j_id r)), (''title'', j_title r), (''salary'', j_salary r),
                          (''equity'', j_equity r), (''companyHandle'', j_company_handle r)])
                 (order_by_title (filter ?P (jobs db)))),
          record_stmt (SelectJobsWhere (''salary >= '' @ show_int v)) [] db)"
    by (simp add: job_object_def)
  have 2: "mset (order_by_title (filter ?P (jobs db))) = mset (filter ?P (jobs db))"
    by (simp add: order_by_title_def)
  from 1 2 show "\<exists>rs. findFiltered pf [(''minSalary'', x)] db =
         (Inr (map (\<lambda>r. [(''id'', JNum (j_id r)), (''title'', j_title r), (''salary'', j_salary r),
                          (''equity'', j_equity r), (''companyHandle'', j_company_handle r)]) rs),
          record_stmt (SelectJobsWhere (''salary >= '' @ show_int v)) [] db)
       \<and> mset rs = mset (filter ?P (jobs db))"
    by (intro exI [of _ "order_by_title (filter ?P (jobs db))"] conjI)
qed

theorem findFiltered_minSalary_witness:
  "fst (findFiltered test_platform [(''minSalary'', JNum 200)] test_store)
     = Inr [[(''id'', JNum 2), (''title'', JStr ''job2''), (''salary'', JNum 300),
             (''equity'', JStr ''0''), (''companyHandle'', JStr ''c2'')]] \<and>
   issued (snd (findFiltered test_platform [(''minSalary'', JNum 200)] test_store))
     = [(SelectJobsWhere ''salary >= 200'', [])] \<and>
   findFiltered test_platform [(''minSalary'', JStr ''abc'')] test_store
     = (Inl (BadRequestError ''minSalary must be a number.''), test_store)"
proof -
  have h1: "map_of [(''minSalary'', JStr ''abc'')] ''minSalary'' = Some (JStr ''abc'')
      \<and> not_numeric test_platform (JStr ''abc'')
      \<and> map_throwing (filter_condition test_platform [(''minSalary'', JStr ''abc'')])
          (takeWhile (\<lambda>k. k \<noteq> ''minSalary'') (Object_keys [(''minSalary'', JStr ''abc'')]))
          = Inr []"
    by code_simp
  have h2: "numeric_as test_platform (JNum 200) 200"
    by (simp add: numeric_as_def safe_integer_def)
  have e: "filter (\<lambda>r. case j_salary r of JNum s \<Rightarrow> 200 \<le> s | _ \<Rightarrow> False) (jobs test_store) = [job2]"
    "show_int 200 = ''200''"
    by code_simp+
  from findFiltered_minSalary [of "[(''minSalary'', JStr ''abc'')]" "JStr ''abc''" test_platform "[]"
        test_store 200 "[]", THEN conjunct1, rule_format, OF h1]
  have 3: "findFiltered test_platform [(''minSalary'', JStr ''abc'')] test_store
     = (Inl (BadRequestError ''minSalary must be a number.''), test_store)" .
  from findFiltered_minSalary [of "[]" "JNum 200" test_platform "[]" test_store 200 "[]",
        THEN conjunct2, THEN conjunct2, rule_format, OF h2]
  obtain rs where rs: "findFiltered test_platform [(''minSalary'', JNum 200)] test_store =
         (Inr (map (\<lambda>r. [(''id'', JNum (j_id r)), (''title'', j_title r), (''salary'', j_salary r),
                          (''equity'', j_equity r), (''companyHandle'', j_company_handle r)]) rs),
          record_stmt (SelectJobsWhere (''salary >= '' @ show_int 200)) [] test_store)"
    "mset rs = mset (filter (\<lambda>r. case j_salary r of JNum s \<Rightarrow> 200 \<le> s | _ \<Rightarrow> False)
        (jobs test_store))"
    by (elim exE conjE)
  from rs(2) have "rs = [job2]"
    by (simp add: e)
  with rs(1) have r: "findFiltered test_platform [(''minSalary'', JNum 200)] test_store =
         (Inr [[(''id'', JNum (j_id job2)), (''title'', j_title job2), (''salary'', j_salary job2),
                (''equity'', j_equity job2), (''companyHandle'', j_company_handle job2)]],
          record_stmt (SelectJobsWhere ''salary >= 200'') [] test_store)"
    by (simp add: e(2))
  have i: "issued (record_stmt (SelectJobsWhere ''salary >= 200'') [] test_store)
      = [(SelectJobsWhere ''salary >= 200'', [])]"
    by (simp add: record_stmt_def test_store_def)
  have o: "[(''id'', JNum (j_id job2)), (''title'', j_title job2), (''salary'', j_salary job2),
                (''equity'', j_equity job2), (''companyHandle'', j_company_handle job2)]
      = [(''id'', JNum 2), (''title'', JStr ''job2''), (''salary'', JNum 300),
             (''equity'', JStr ''0''), (''companyHandle'', JStr ''c2'')]"
    by (simp add: job2_def)
  from r have 1: "fst (findFiltered test_platform [(''minSalary'', JNum 200)] test_store)
     = Inr [[(''id'', JNum 2), (''title'', JStr ''job2''), (''salary'', JNum 300),
             (''equity'', JStr ''0''), (''companyHandle'', JStr ''c2'')]]"
    by (simp only: fst_conv o)
  from r have 2: "issued (snd (findFiltered test_platform [(''minSalary'', JNum 200)] test_store))
     = [(SelectJobsWhere ''salary >= 200'', [])]"
    by (simp only: snd_conv i)
  from 1 2 3 show ?thesis by (intro conjI)
qed

text \<open>
  C3 as stated fails where an earlier key fails first: on \<open>{foo: 1, minSalary: "abc"}\<close>
  the value of \<open>minSalary\<close> is not a number, and the error raised is the invalid filter
  key \<open>foo\<close>.
\<close>

theorem findFiltered_minSalary_counterexample:
  "map_of [(''foo'', JNum 1), (''minSalary'', JStr ''abc'')] ''minSalary'' = Some (JStr ''abc'') \<and>
   not_numeric test_platform (JStr ''abc'') \<and>
   fst (findFiltered test_platform [(''foo'', JNum 1), (''minSalary'', JStr ''abc'')] test_store)
     = Inl (BadRequestError ''Invalid filter key: foo'')"
  by code_simp

text \<open>With \<open>hasEquity\<close> the boolean true, the clause is \<open>equity > 0\<close> and the rows are
  exactly the jobs with equity above zero.\<close>

lemma findFiltered_hasEquity_true:
  "findFiltered pf [(''hasEquity'', JBool True)] db =
     (Inr (map job_object (order_by_title (filter (\<lambda>r. numeric_pos (j_equity r)) (jobs db)))),
      record_stmt (SelectJobsWhere ''equity > 0'') [] db)"
proof -
  have "map_throwing (filter_condition pf [(''hasEquity'', JBool True)])
      (Object_keys [(''hasEquity'', JBool True)]) = Inr [EquityPos]"
    by (simp add: Object_keys_def filter_condition_def get_prop_def)
  then show ?thesis
    using findFiltered_queries [of "[(''hasEquity'', JBool True)]" pf "[EquityPos]" db]
    by (simp add: whereClause_of_def)
qed

text \<open>
  C1 at the mapping \<open>{minSalary: 100, hasEquity: false}\<close>: the case \<open>hasEquity\<close> does
  not return, control runs on into the case \<open>title\<close>, and \<open>false.toLowerCase()\<close> throws
  a TypeError; the same mapping without \<open>hasEquity\<close> returns the jobs with a salary of
  at least 100.
\<close>

theorem findFiltered_hasEquity_false_throws:
  "findFiltered pf [(''minSalary'', JNum 100), (''hasEquity'', JBool False)] db
     = (Inl (TypeError ''filterBy[condition].toLowerCase is not a function''), db) \<and>
   findFiltered pf [(''minSalary'', JNum 100)] db
     = (Inr (map job_object (order_by_title
              (filter (\<lambda>r. case j_salary r of JNum s \<Rightarrow> 100 \<le> s | _ \<Rightarrow> False) (jobs db)))),
        record_stmt (SelectJobsWhere (''salary >= '' @ show_int 100)) [] db)"
proof
  have "map_throwing (filter_condition pf [(''minSalary'', JNum 100), (''hasEquity'', JBool False)])
      (Object_keys [(''minSalary'', JNum 100), (''hasEquity'', JBool False)])
      = Inl (TypeError ''filterBy[condition].toLowerCase is not a function'')"
    by (simp add: Object_keys_def filter_condition_def get_prop_def title_case_def)
  then show "findFiltered pf [(''minSalary'', JNum 100), (''hasEquity'', JBool False)] db
     = (Inl (TypeError ''filterBy[condition].toLowerCase is not a function''), db)"
    by (simp add: findFiltered_throws)
next
  have "map_throwing (filter_condition pf [(''minSalary'', JNum 100)])
      (Object_keys [(''minSalary'', JNum 100)]) = Inr [SalaryGE 100]"
    by (simp add: Object_keys_def filter_condition_def get_prop_def)
  then show "findFiltered pf [(''minSalary'', JNum 100)] db
     = (Inr (map job_object (order_by_title
              (filter (\<lambda>r. case j_salary r of JNum s \<Rightarrow> 100 \<le> s | _ \<Rightarrow> False) (jobs db)))),
        record_stmt (SelectJobsWhere (''salary >= '' @ show_int 100)) [] db)"
    using findFiltered_queries [of "[(''minSalary'', JNum 100)]" pf "[SalaryGE 100]" db]
    by (simp add: whereClause_of_def)
qed

end
